theory Spec2Isabelle
  imports Complex_Main "HOL-Library.List_Lexorder" "HOL-Library.Product_Lexorder"
begin

unbundle bit_operations_syntax

section \<open>Values of the program\<close>

text \<open>
  The program is the script \<^verbatim>\<open>scripts/strava_cache.py\<close>. Its values are modelled as follows.
  \<^item> A Python \<^verbatim>\<open>str\<close> is a list of Unicode code points (\<open>pystr\<close>); \<^verbatim>\<open>ord\<close> of a character
    is the list element itself. A literal is written \<open>str ''...''\<close>.
  \<^item> A Python \<^verbatim>\<open>int\<close> is an \<open>int\<close>: unbounded, with \<open>AND\<close>, \<open>OR\<close>, \<open>NOT\<close>, \<open>push_bit\<close>
    and \<open>drop_bit\<close> acting on the infinite two's complement representation as Python's
    \<^verbatim>\<open>&\<close>, \<^verbatim>\<open>|\<close>, \<^verbatim>\<open>~\<close>, \<^verbatim>\<open><<\<close> and \<^verbatim>\<open>>>\<close> do.
  \<^item> A Python \<^verbatim>\<open>float\<close> is a rational number (\<open>rat\<close>) that stands for the float nearest
    to it, as a decimal literal of Python does: the quotient \<^verbatim>\<open>lat / 1e5\<close> and the midpoint
    \<^verbatim>\<open>(minx + maxx) / 2.0\<close> are exact in the model, the binary rounding of their results is
    not represented, and there is no NaN. Equal values of the model stand for equal floats.
    What is represented of the floating-point type is the conversion of an integer to a
    float, which rounds an integer of more than 53 bits and raises \<open>OverflowError\<close> when
    the integer is too large.
  \<^item> An exception is a value of type \<open>error\<close>; a function that may raise returns
    \<open>error + 'a\<close>, with \<open>Inl\<close> for the exception.
\<close>

type_synonym pystr = "nat list"

definition str :: "string \<Rightarrow> pystr" where
  "str s = map of_char s"

datatype error =
    IndexError | OverflowError | ValueError | TypeError | OSError
  | HTTPError | RuntimeError

section \<open>The polyline decoder\<close>

text \<open>
  The inner \<^verbatim>\<open>while True\<close> loop of \<^verbatim>\<open>decode_polyline\<close> (it occurs twice, for the latitude
  and for the longitude). It returns the accumulated \<^verbatim>\<open>result\<close> and the cursor after the
  terminating character; \<^verbatim>\<open>polyline_str[index]\<close> raises \<open>IndexError\<close> when the cursor is at
  or beyond the end of the string.
\<close>

function read_chunk :: "pystr \<Rightarrow> nat \<Rightarrow> int \<Rightarrow> nat \<Rightarrow> error + (int \<times> nat)" where
  "read_chunk polyline_str index result shift =
     (if index < length polyline_str then
        (let b = int (polyline_str ! index) - 63;
             index' = index + 1;
             result' = result OR push_bit shift (b AND 0x1f);
             shift' = shift + 5
         in if b < 0x20 then Inr (result', index')
            else read_chunk polyline_str index' result' shift')
      else Inl IndexError)"
  by pat_completeness auto
termination
  by (relation "measure (\<lambda>(s, index, result, shift). length s - index)") auto

declare read_chunk.simps [simp del]

text \<open>\<^verbatim>\<open>~(result >> 1) if (result & 1) else (result >> 1)\<close>\<close>

definition signed_delta :: "int \<Rightarrow> int" where
  "signed_delta result =
     (if result AND 1 \<noteq> 0 then NOT (drop_bit 1 result) else drop_bit 1 result)"

text \<open>
  The conversion of an integer to a float keeps the 53 most significant bits of the
  magnitude and rounds the bits below them to the nearest, a tie to the even neighbour.
  \<open>excess_bits a\<close> is the number of bits of \<open>a\<close> beyond 53. The result is given as the
  integer that the float is; an integer below \<open>2 ^ 53\<close> in magnitude is unchanged.
\<close>

function excess_bits :: "int \<Rightarrow> nat" where
  "excess_bits a = (if a < 2 ^ 53 then 0 else Suc (excess_bits (a div 2)))"
  by pat_completeness auto
termination
  by (relation "measure nat") auto

declare excess_bits.simps [simp del]

definition float_of_int :: "int \<Rightarrow> int" where
  "float_of_int n =
     (let a = \<bar>n\<bar>;
          e = excess_bits a;
          q = a div 2 ^ e;
          r = a mod 2 ^ e;
          m = (if 2 * r < 2 ^ e \<or> (2 * r = 2 ^ e \<and> even q) then q else q + 1)
      in sgn n * (m * 2 ^ e))"

text \<open>
  \<^verbatim>\<open>lat / 1e5\<close>: the integer is converted to a float first, which raises \<open>OverflowError\<close>
  when it rounds to a magnitude of \<open>2 ^ 1024\<close> or more; the float is then divided by
  \<open>10 ^ 5\<close>.
\<close>

definition div_1e5 :: "int \<Rightarrow> error + rat" where
  "div_1e5 n =
     (let f = float_of_int n
      in if \<bar>f\<bar> < 2 ^ 1024 then Inr (of_int f / 100000) else Inl OverflowError)"

lemma read_chunk_index:
  "read_chunk s i r sh = Inr (res, j) \<Longrightarrow> i < j \<and> j \<le> length s"
proof (induction s i r sh rule: read_chunk.induct)
  case (1 s i r sh)
  show ?case
  proof (cases "i < length s")
    case False
    with "1.prems" show ?thesis by (simp add: read_chunk.simps [of s i])
  next
    case True
    show ?thesis
    proof (cases "int (s ! i) - 63 < 0x20")
      case True
      with \<open>i < length s\<close> "1.prems" show ?thesis
        by (auto simp: read_chunk.simps [of s i] Let_def)
    next
      case False
      with \<open>i < length s\<close> "1.prems"
      have "read_chunk s (i + 1) (r OR push_bit sh ((int (s ! i) - 63) AND 0x1f)) (sh + 5)
              = Inr (res, j)"
        by (simp add: read_chunk.simps [of s i] Let_def)
      from "1.IH" [OF \<open>i < length s\<close> refl refl refl refl False this]
      show ?thesis by simp
    qed
  qed
qed

text \<open>
  The outer loop of \<^verbatim>\<open>decode_polyline\<close>, with the loop variables \<^verbatim>\<open>index\<close>, \<^verbatim>\<open>lat\<close>,
  \<^verbatim>\<open>lng\<close> and \<^verbatim>\<open>coords\<close> as arguments.
\<close>

function decode_loop ::
  "pystr \<Rightarrow> nat \<Rightarrow> int \<Rightarrow> int \<Rightarrow> (rat \<times> rat) list \<Rightarrow> error + (rat \<times> rat) list" where
  "decode_loop polyline_str index lat lng coords =
     (if index < length polyline_str then
        (case read_chunk polyline_str index 0 0 of
           Inl e \<Rightarrow> Inl e
         | Inr (result, index1) \<Rightarrow>
             (let dlat = signed_delta result; lat' = lat + dlat in
              case read_chunk polyline_str index1 0 0 of
                Inl e \<Rightarrow> Inl e
              | Inr (result2, index2) \<Rightarrow>
                  (let dlng = signed_delta result2; lng' = lng + dlng in
                   case div_1e5 lat' of
                     Inl e \<Rightarrow> Inl e
                   | Inr la \<Rightarrow>
                       (case div_1e5 lng' of
                          Inl e \<Rightarrow> Inl e
                        | Inr lo \<Rightarrow>
                            decode_loop polyline_str index2 lat' lng' (coords @ [(la, lo)])))))
      else Inr coords)"
  by pat_completeness auto
termination
proof (relation "measure (\<lambda>(s, index, lat, lng, coords). length s - index)", goal_cases)
  case 1
  show ?case by simp
next
  case (2 s index lat lng coords x2 result index1 dlat lat' y2 result2 index2)
  then have "index < index1 \<and> index1 \<le> length s" "index1 < index2 \<and> index2 \<le> length s"
    using read_chunk_index by blast+
  then have "length s - index2 < length s - index" by linarith
  then show ?case by simp
qed

declare decode_loop.simps [simp del]

definition decode_polyline :: "pystr \<Rightarrow> error + (rat \<times> rat) list" where
  "decode_polyline polyline_str = decode_loop polyline_str 0 0 0 []"


section \<open>Bounding box and center\<close>

text \<open>
  Python's \<^verbatim>\<open>min\<close> and \<^verbatim>\<open>max\<close> of a list: \<open>ValueError\<close> on the empty list, otherwise a
  scan that keeps the first of the least (greatest) elements.
\<close>

fun py_min :: "'a::linorder list \<Rightarrow> error + 'a" where
  "py_min [] = Inl ValueError"
| "py_min (x # xs) = Inr (fold (\<lambda>item best. if item < best then item else best) xs x)"

fun py_max :: "'a::linorder list \<Rightarrow> error + 'a" where
  "py_max [] = Inl ValueError"
| "py_max (x # xs) = Inr (fold (\<lambda>item best. if best < item then item else best) xs x)"

definition bbox_from_coords :: "('a::linorder \<times> 'a) list \<Rightarrow> error + 'a list" where
  "bbox_from_coords coords =
     (let lats = map fst coords;
          lngs = map snd coords
      in case py_min lngs of Inl e \<Rightarrow> Inl e | Inr minx \<Rightarrow>
         (case py_min lats of Inl e \<Rightarrow> Inl e | Inr miny \<Rightarrow>
         (case py_max lngs of Inl e \<Rightarrow> Inl e | Inr maxx \<Rightarrow>
         (case py_max lats of Inl e \<Rightarrow> Inl e | Inr maxy \<Rightarrow>
            Inr [minx, miny, maxx, maxy]))))"

text \<open>\<^verbatim>\<open>minx, miny, maxx, maxy = b\<close> raises \<open>ValueError\<close> unless \<^verbatim>\<open>b\<close> has four elements.\<close>

fun center_from_bbox :: "rat list \<Rightarrow> error + rat list" where
  "center_from_bbox [minx, miny, maxx, maxy] = Inr [(minx + maxx) / 2, (miny + maxy) / 2]"
| "center_from_bbox b = Inl ValueError"

section \<open>Slugs\<close>

text \<open>
  \<^verbatim>\<open>unicodedata.normalize("NFKD", value)\<close> belongs to the standard library. On a string
  whose code points are all below 256 (Basic Latin and Latin-1 Supplement) it replaces each
  character by its compatibility decomposition, which the table \<open>latin1_decomposition\<close>
  lists; no reordering of combining marks arises there, since every decomposition starts
  with a character of combining class 0 and holds at most one mark. On every other string
  the function is the parameter \<open>ucd\<close>.
\<close>

definition latin1_decomposition :: "(nat \<times> pystr) list" where
  "latin1_decomposition =
   [(160, [32]), (168, [32, 776]), (170, [97]), (175, [32, 772]), (178, [50]),
    (179, [51]), (180, [32, 769]), (181, [956]), (184, [32, 807]), (185, [49]),
    (186, [111]), (188, [49, 8260, 52]), (189, [49, 8260, 50]), (190, [51, 8260, 52]),
    (192, [65, 768]), (193, [65, 769]), (194, [65, 770]), (195, [65, 771]),
    (196, [65, 776]), (197, [65, 778]), (199, [67, 807]), (200, [69, 768]),
    (201, [69, 769]), (202, [69, 770]), (203, [69, 776]), (204, [73, 768]),
    (205, [73, 769]), (206, [73, 770]), (207, [73, 776]), (209, [78, 771]),
    (210, [79, 768]), (211, [79, 769]), (212, [79, 770]), (213, [79, 771]),
    (214, [79, 776]), (217, [85, 768]), (218, [85, 769]), (219, [85, 770]),
    (220, [85, 776]), (221, [89, 769]), (224, [97, 768]), (225, [97, 769]),
    (226, [97, 770]), (227, [97, 771]), (228, [97, 776]), (229, [97, 778]),
    (231, [99, 807]), (232, [101, 768]), (233, [101, 769]), (234, [101, 770]),
    (235, [101, 776]), (236, [105, 768]), (237, [105, 769]), (238, [105, 770]),
    (239, [105, 776]), (241, [110, 771]), (242, [111, 768]), (243, [111, 769]),
    (244, [111, 770]), (245, [111, 771]), (246, [111, 776]), (249, [117, 768]),
    (250, [117, 769]), (251, [117, 770]), (252, [117, 776]), (253, [121, 769]),
    (255, [121, 776])]"

definition decompose :: "nat \<Rightarrow> pystr" where
  "decompose c = (case map_of latin1_decomposition c of None \<Rightarrow> [c] | Some d \<Rightarrow> d)"

definition normalize_NFKD :: "(pystr \<Rightarrow> pystr) \<Rightarrow> pystr \<Rightarrow> pystr" where
  "normalize_NFKD ucd value =
     (if list_all (\<lambda>c. c < 256) value then concat (map decompose value) else ucd value)"

text \<open>\<^verbatim>\<open>.encode("ascii", "ignore").decode("ascii")\<close> drops every code point from 128 on.\<close>

definition ascii_ignore :: "pystr \<Rightarrow> pystr" where
  "ascii_ignore value = filter (\<lambda>c. c < 128) value"

text \<open>
  The character classes of the two regular expressions, on the ASCII characters that are
  left: \<^verbatim>\<open>\w\<close> is a letter, a digit or the underscore; \<^verbatim>\<open>\s\<close> is one of the characters 9
  to 13, 28 to 31 and the space, which are also the ones \<^verbatim>\<open>strip()\<close> removes.
\<close>

definition is_word :: "nat \<Rightarrow> bool" where
  "is_word c \<longleftrightarrow> (48 \<le> c \<and> c \<le> 57) \<or> (65 \<le> c \<and> c \<le> 90) \<or> (97 \<le> c \<and> c \<le> 122) \<or> c = 95"

definition is_space :: "nat \<Rightarrow> bool" where
  "is_space c \<longleftrightarrow> (9 \<le> c \<and> c \<le> 13) \<or> (28 \<le> c \<and> c \<le> 32)"

definition hyphen :: nat where
  "hyphen = 45"

text \<open>\<^verbatim>\<open>re.sub(r"[^\w\s-]", "", value)\<close>\<close>

definition remove_other :: "pystr \<Rightarrow> pystr" where
  "remove_other value = filter (\<lambda>c. is_word c \<or> is_space c \<or> c = hyphen) value"

definition strip :: "pystr \<Rightarrow> pystr" where
  "strip value = rev (dropWhile is_space (rev (dropWhile is_space value)))"

definition lower :: "pystr \<Rightarrow> pystr" where
  "lower value = map (\<lambda>c. if 65 \<le> c \<and> c \<le> 90 then c + 32 else c) value"

text \<open>\<^verbatim>\<open>re.sub(r"[-\s]+", "-", value)\<close>: every maximal run of hyphens and spaces becomes one hyphen.\<close>

function collapse_runs :: "pystr \<Rightarrow> pystr" where
  "collapse_runs [] = []"
| "collapse_runs (c # cs) =
     (if c = hyphen \<or> is_space c
      then hyphen # collapse_runs (dropWhile (\<lambda>d. d = hyphen \<or> is_space d) cs)
      else c # collapse_runs cs)"
  by pat_completeness auto
termination
  by (relation "measure length") (auto simp: less_Suc_eq_le length_dropWhile_le)

definition slugify :: "(pystr \<Rightarrow> pystr) \<Rightarrow> pystr \<Rightarrow> pystr" where
  "slugify ucd value =
     (let value1 = ascii_ignore (normalize_NFKD ucd value);
          value2 = lower (strip (remove_other value1));
          value3 = collapse_runs value2;
          value4 = take 60 value3
      in if value4 = [] then str ''route'' else value4)"


section \<open>Small helpers of the script\<close>

text \<open>\<^verbatim>\<open>str(n)\<close> of an integer, as the f-strings of the script print a route identifier.\<close>

fun digits :: "nat \<Rightarrow> pystr" where
  "digits n = (if n < 10 then [48 + n] else digits (n div 10) @ [48 + n mod 10])"

declare digits.simps [simp del]

definition str_of_int :: "int \<Rightarrow> pystr" where
  "str_of_int n = (if n < 0 then hyphen # digits (nat (- n)) else digits (nat n))"

text \<open>
  \<^verbatim>\<open>round(x, 3)\<close> rounds to the nearest multiple of one thousandth, a tie going to the even
  neighbour.
\<close>

definition round_half_even :: "rat \<Rightarrow> int" where
  "round_half_even q =
     (let f = \<lfloor>q\<rfloor>; d = q - of_int f
      in if d < 1 / 2 then f else if 1 / 2 < d then f + 1 else if even f then f else f + 1)"

definition round3 :: "rat \<Rightarrow> rat" where
  "round3 q = of_int (round_half_even (q * 1000)) / 1000"

text \<open>
  \<^verbatim>\<open>km(meters)\<close> is \<^verbatim>\<open>round((meters or 0.0) / 1000.0, 3)\<close>; the argument is \<open>None\<close> for
  Python's \<^verbatim>\<open>None\<close>.
\<close>

definition or_zero :: "rat option \<Rightarrow> rat" where
  "or_zero v = (case v of None \<Rightarrow> 0 | Some m \<Rightarrow> if m = 0 then 0 else m)"

definition km :: "rat option \<Rightarrow> rat" where
  "km meters = round3 (or_zero meters / 1000)"

text \<open>\<^verbatim>\<open>float(v)\<close>: \<open>TypeError\<close> on \<^verbatim>\<open>None\<close>.\<close>

definition py_float :: "rat option \<Rightarrow> error + rat" where
  "py_float v = (case v of None \<Rightarrow> Inl TypeError | Some m \<Rightarrow> Inr m)"

text \<open>
  \<^verbatim>\<open>os.path.join(a, b)\<close> on a POSIX system: an absolute second component replaces the
  first, otherwise the two are joined with one slash.
\<close>

definition slash :: nat where
  "slash = 47"

definition path_join :: "pystr \<Rightarrow> pystr \<Rightarrow> pystr" where
  "path_join a b =
     (if b \<noteq> [] \<and> hd b = slash then b
      else if a = [] \<or> last a = slash then a @ b
      else a @ [slash] @ b)"

section \<open>Records of the remote service\<close>

text \<open>
  A key of a JSON object is absent, present with the value \<^verbatim>\<open>null\<close>, or present with a
  value. \<^verbatim>\<open>d.get(k)\<close> gives \<^verbatim>\<open>None\<close> in the first two cases; \<^verbatim>\<open>d.get(k, default)\<close> gives
  the default only when the key is absent.

  A record of a route has the keys that the loop reads, with values of the types the
  service sends: the identifier is an integer and is always there (\<^verbatim>\<open>r["id"]\<close>), the name,
  the type and the two time stamps are strings, the distance and the elevation gain are
  numbers, and the map is an object with two polylines.
\<close>

datatype 'a field = Missing | Null | Val 'a

definition get :: "'a field \<Rightarrow> 'a option" where
  "get f = (case f of Missing \<Rightarrow> None | Null \<Rightarrow> None | Val v \<Rightarrow> Some v)"

definition get_default :: "'a field \<Rightarrow> 'a \<Rightarrow> 'a option" where
  "get_default f d = (case f of Missing \<Rightarrow> Some d | Null \<Rightarrow> None | Val v \<Rightarrow> Some v)"

record route_map =
  polyline :: "pystr field"
  summary_polyline :: "pystr field"

record raw_route =
  r_id :: int
  r_name :: "pystr field"
  r_distance :: "rat field"
  r_elevation_gain :: "rat field"
  r_type :: "pystr field"
  r_updated_at :: "pystr field"
  r_created_at :: "pystr field"
  r_map :: "route_map field"

record detail =
  d_map :: "route_map field"

text \<open>Truth value of an optional string, and \<^verbatim>\<open>a or b\<close> on optional strings.\<close>

definition truthy :: "pystr option \<Rightarrow> bool" where
  "truthy v = (case v of None \<Rightarrow> False | Some t \<Rightarrow> t \<noteq> [])"

definition py_or :: "pystr option \<Rightarrow> pystr option \<Rightarrow> pystr option" where
  "py_or a b = (if truthy a then a else b)"

text \<open>\<^verbatim>\<open>v or d\<close> where \<^verbatim>\<open>d\<close> is a string: the result is a string.\<close>

definition or_str :: "pystr option \<Rightarrow> pystr \<Rightarrow> pystr" where
  "or_str v d = (case v of None \<Rightarrow> d | Some t \<Rightarrow> if t = [] then d else t)"

text \<open>\<^verbatim>\<open>(m or {}).get("polyline") or (m or {}).get("summary_polyline")\<close>\<close>

definition or_empty :: "route_map option \<Rightarrow> route_map" where
  "or_empty m =
     (case m of None \<Rightarrow> \<lparr>polyline = Missing, summary_polyline = Missing\<rparr> | Some d \<Rightarrow> d)"

definition map_polyline :: "route_map option \<Rightarrow> pystr option" where
  "map_polyline m = py_or (get (polyline (or_empty m))) (get (summary_polyline (or_empty m)))"

section \<open>Output documents\<close>

record properties =
  p_id :: int
  p_name :: pystr
  p_slug :: pystr
  p_type :: "pystr option"
  p_distance_m :: rat
  p_distance_km :: rat
  p_elev_gain_m :: rat
  p_updated_at :: "pystr option"

text \<open>A feature: its properties (\<open>None\<close> for the empty mapping) and the LineString coordinates.\<close>

record feature =
  f_properties :: "properties option"
  f_coordinates :: "rat list list"

record feature_collection =
  fc_features :: "feature list"
  fc_bbox :: "rat list"

record manifest_entry =
  e_id :: int
  e_name :: pystr
  e_slug :: pystr
  e_type :: "pystr option"
  e_distance_m :: rat
  e_distance_km :: rat
  e_elev_gain_m :: rat
  e_file :: pystr
  e_bbox :: "rat list"
  e_center :: "rat list"
  e_updated_at :: "pystr option"

record index =
  generated_at :: pystr
  athlete_id :: int
  count :: nat
  routes :: "manifest_entry list"

datatype document = Route_geojson feature_collection | Index_json index

text \<open>\<^verbatim>\<open>polyline_to_geojson_feature\<close>: the pairs are swapped to \<^verbatim>\<open>[lon, lat]\<close>.\<close>

definition polyline_to_geojson_feature :: "(rat \<times> rat) list \<Rightarrow> properties option \<Rightarrow> feature" where
  "polyline_to_geojson_feature coords props =
     (let line = map (\<lambda>(lat, lon). [lon, lat]) coords
      in \<lparr>f_properties = props, f_coordinates = line\<rparr>)"


section \<open>The run\<close>

text \<open>
  The world outside the script. \<open>files\<close> is the sequence of files the run has written so
  far, each with its path and the document \<^verbatim>\<open>json.dump\<close> serialises (a later write to the
  same path replaces the earlier one); \<open>stdout\<close> is what the run has printed, one value per
  \<^verbatim>\<open>print\<close>.
\<close>

datatype log_line =
    Found_routes nat int
  | Warning_detail int error
  | Skipping_no_polyline int
  | Skipping_empty int
  | Wrote_routes nat pystr pystr

record world =
  files :: "(pystr \<times> document) list"
  stdout :: "log_line list"

text \<open>
  What the script obtains from outside: the part of the Unicode database beyond Latin-1
  (\<open>ucd\<close>); the outcome of the steps before the loop, \<^verbatim>\<open>ensure_dir\<close>, \<^verbatim>\<open>get_access_token\<close>,
  \<^verbatim>\<open>get_athlete\<close> and \<^verbatim>\<open>list_athlete_routes\<close>, which is an exception or the athlete's
  identifier with the list of routes (\<open>listing\<close>); the answer of \<^verbatim>\<open>get_route_detail\<close> for each
  route identifier; the clock; and whether \<^verbatim>\<open>open(path, "w")\<close> succeeds.
\<close>

record extern =
  ucd :: "pystr \<Rightarrow> pystr"
  listing :: "error + (int \<times> raw_route list)"
  get_route_detail :: "int \<Rightarrow> error + detail"
  utcnow :: pystr
  writable :: "pystr \<Rightarrow> bool"

text \<open>The two module constants read from the environment.\<close>

record config =
  ROUTES_DIR :: pystr
  INDEX_PATH :: pystr

definition config_of_environ :: "(pystr \<Rightarrow> pystr option) \<Rightarrow> config" where
  "config_of_environ environ =
     (let routes_dir = (case environ (str ''ROUTES_DIR'') of None \<Rightarrow> str ''routes'' | Some v \<Rightarrow> v);
          index_path = (case environ (str ''INDEX_PATH'') of
                          None \<Rightarrow> path_join routes_dir (str ''index.json'') | Some v \<Rightarrow> v)
      in \<lparr>ROUTES_DIR = routes_dir, INDEX_PATH = index_path\<rparr>)"

definition print :: "log_line \<Rightarrow> world \<Rightarrow> world" where
  "print l w = w\<lparr>stdout := stdout w @ [l]\<rparr>"

definition write_file :: "extern \<Rightarrow> pystr \<Rightarrow> document \<Rightarrow> world \<Rightarrow> error option \<times> world" where
  "write_file x path doc w =
     (if writable x path then (None, w\<lparr>files := files w @ [(path, doc)]\<rparr>) else (Some OSError, w))"

text \<open>
  The \<^verbatim>\<open>try\<close> block of the loop body: the polyline of the detailed record, else the one of
  the listed record; an exception of the detail request is printed as a warning and the
  listed record is used.
\<close>

definition resolve_polyline :: "extern \<Rightarrow> raw_route \<Rightarrow> world \<Rightarrow> pystr option \<times> world" where
  "resolve_polyline x r w =
     (case get_route_detail x (r_id r) of
        Inr detail \<Rightarrow>
          (let mp = map_polyline (get (d_map detail))
           in (if \<not> truthy mp then map_polyline (get (r_map r)) else mp, w))
      | Inl e \<Rightarrow> (map_polyline (get (r_map r)), print (Warning_detail (r_id r) e) w))"

text \<open>\<^verbatim>\<open>r.get("name") or f"Route {route_id}"\<close>\<close>

definition route_name :: "raw_route \<Rightarrow> pystr" where
  "route_name r = or_str (get (r_name r)) (str ''Route '' @ str_of_int (r_id r))"

text \<open>\<^verbatim>\<open>f"strava_route_{route_id}_{slug}.geojson"\<close>\<close>

definition route_filename :: "int \<Rightarrow> pystr \<Rightarrow> pystr" where
  "route_filename route_id slug =
     str ''strava_route_'' @ str_of_int route_id @ str ''_'' @ slug @ str ''.geojson''"

text \<open>
  One iteration of the loop over the routes, on the index under construction and the
  world. The first component of the result is the exception that leaves the loop, if any.
\<close>

definition process_route ::
  "extern \<Rightarrow> config \<Rightarrow> raw_route \<Rightarrow> index \<times> world \<Rightarrow> error option \<times> index \<times> world" where
  "process_route x cfg r st =
     (let idx = fst st;
          route_id = r_id r;
          name = route_name r;
          slug = slugify (ucd x) name;
          distance_m = get_default (r_distance r) 0;
          elev_gain_m = get_default (r_elevation_gain r) 0;
          route_type = get (r_type r);
          updated_at = py_or (get (r_updated_at r)) (get (r_created_at r));
          (mp, w) = resolve_polyline x r (snd st)
      in if \<not> truthy mp then (None, idx, print (Skipping_no_polyline route_id) w)
         else
          (case decode_polyline (the mp) of
             Inl e \<Rightarrow> (Some e, idx, w)
           | Inr coords \<Rightarrow>
              if coords = [] then (None, idx, print (Skipping_empty route_id) w)
              else
               (case bbox_from_coords coords of
                  Inl e \<Rightarrow> (Some e, idx, w)
                | Inr bbox \<Rightarrow>
                   (case center_from_bbox bbox of
                      Inl e \<Rightarrow> (Some e, idx, w)
                    | Inr center \<Rightarrow>
                       (case py_float distance_m of
                          Inl e \<Rightarrow> (Some e, idx, w)
                        | Inr distance_f \<Rightarrow>
                           (let props = \<lparr>p_id = route_id, p_name = name, p_slug = slug,
                                          p_type = route_type, p_distance_m = distance_f,
                                          p_distance_km = km distance_m,
                                          p_elev_gain_m = or_zero elev_gain_m,
                                          p_updated_at = updated_at\<rparr>;
                                feature = polyline_to_geojson_feature coords (Some props);
                                gj = \<lparr>fc_features = [feature], fc_bbox = bbox\<rparr>;
                                filename = route_filename route_id slug;
                                path = path_join (ROUTES_DIR cfg) filename
                            in case write_file x path (Route_geojson gj) w of
                                 (Some e, w') \<Rightarrow> (Some e, idx, w')
                               | (None, w') \<Rightarrow>
                                  (let entry = \<lparr>e_id = route_id, e_name = name, e_slug = slug,
                                                 e_type = route_type, e_distance_m = distance_f,
                                                 e_distance_km = km distance_m,
                                                 e_elev_gain_m = or_zero elev_gain_m,
                                                 e_file = str ''routes/'' @ filename,
                                                 e_bbox = bbox, e_center = center,
                                                 e_updated_at = updated_at\<rparr>
                                   in (None, idx\<lparr>routes := routes idx @ [entry]\<rparr>, w'))))))))"

fun run_routes ::
  "extern \<Rightarrow> config \<Rightarrow> raw_route list \<Rightarrow> index \<times> world \<Rightarrow> error option \<times> index \<times> world" where
  "run_routes x cfg [] st = (None, st)"
| "run_routes x cfg (r # rs) st =
     (case process_route x cfg r st of
        (Some e, st') \<Rightarrow> (Some e, st')
      | (None, st') \<Rightarrow> run_routes x cfg rs st')"

text \<open>The key of the final sort: \<^verbatim>\<open>(x["type"] or "", x["name"] or "")\<close>.\<close>

definition manifest_key :: "manifest_entry \<Rightarrow> pystr \<times> pystr" where
  "manifest_key e = (or_str (e_type e) [], or_str (Some (e_name e)) [])"

text \<open>
  \<^verbatim>\<open>main\<close>. An exception before the loop or inside it ends the run with that exception;
  \<^verbatim>\<open>list.sort\<close> is a stable sort by the key, as \<open>sort_key\<close> is.
\<close>

definition main :: "extern \<Rightarrow> config \<Rightarrow> error option \<times> world" where
  "main x cfg =
     (let w0 = \<lparr>files = [], stdout = []\<rparr>
      in case listing x of
           Inl e \<Rightarrow> (Some e, w0)
         | Inr (athlete, routes_list) \<Rightarrow>
            (let w1 = print (Found_routes (length routes_list) athlete) w0;
                 idx0 = \<lparr>generated_at = utcnow x, athlete_id = athlete, count = 0, routes = []\<rparr>
             in case run_routes x cfg routes_list (idx0, w1) of
                  (Some e, idx, w) \<Rightarrow> (Some e, w)
                | (None, idx, w) \<Rightarrow>
                   (let idx1 = idx\<lparr>count := length (routes idx)\<rparr>;
                        idx2 = idx1\<lparr>routes := sort_key manifest_key (routes idx1)\<rparr>
                    in case write_file x (INDEX_PATH cfg) (Index_json idx2) w of
                         (Some e, w') \<Rightarrow> (Some e, w')
                       | (None, w') \<Rightarrow>
                          (None, print (Wrote_routes (count idx2) (ROUTES_DIR cfg) (INDEX_PATH cfg)) w'))))"

section \<open>The encoder of the round trip\<close>

text \<open>
  The script has no encoder. The one below is written from the words of the
  specification, the scheme that matches the decoder, and serves to state the round trip:
  a coordinate is scaled by \<open>10 ^ 5\<close> and rounded to an integer; its difference to the same
  coordinate of the previous point (0 before the first point) is shifted left by one bit
  and complemented when it is negative; the non-negative number that results is written in
  groups of 5 bits, the least significant group first, every group but the last with the
  continuation bit \<^verbatim>\<open>0x20\<close>, and 63 is added to each group to give a character.
\<close>

function spec_encode_unsigned :: "int \<Rightarrow> pystr" where
  "spec_encode_unsigned u =
     (if 0x20 \<le> u then nat ((0x20 OR (u AND 0x1f)) + 63) # spec_encode_unsigned (drop_bit 5 u)
      else [nat (u + 63)])"
  by pat_completeness auto
termination
  by (relation "measure nat") (auto simp: drop_bit_eq_div)

declare spec_encode_unsigned.simps [simp del]

definition spec_encode_signed :: "int \<Rightarrow> pystr" where
  "spec_encode_signed v =
     spec_encode_unsigned (if v < 0 then NOT (push_bit 1 v) else push_bit 1 v)"

text \<open>
  The scaled integer of a coordinate, which is the integer nearest to \<open>c * 10 ^ 5\<close>, and the
  coordinate rounded to 5 decimal places, as \<^verbatim>\<open>round(c, 5)\<close> gives it.
\<close>

definition e5 :: "rat \<Rightarrow> int" where
  "e5 c = round_half_even (c * 100000)"


fun spec_encode_from :: "int \<Rightarrow> int \<Rightarrow> (rat \<times> rat) list \<Rightarrow> pystr" where
  "spec_encode_from plat plng [] = []"
| "spec_encode_from plat plng ((lat, lng) # rest) =
     spec_encode_signed (e5 lat - plat) @ spec_encode_signed (e5 lng - plng)
       @ spec_encode_from (e5 lat) (e5 lng) rest"

definition spec_encode_polyline :: "(rat \<times> rat) list \<Rightarrow> pystr" where
  "spec_encode_polyline coords = spec_encode_from 0 0 coords"



section \<open>Concrete inputs\<close>


text \<open>The polyline of the end-to-end scenario.\<close>

definition canonical_polyline :: pystr where
  "canonical_polyline = str ''_p~iF~ps|U_ulLnnqC_mqNvxq`@''"

text \<open>
  The name \<^verbatim>\<open>Caf<e9> de l'<c9>t<e9>!\<close> as code points, where \<^verbatim>\<open><e9>\<close> is code point
  233, the small e with acute accent, \<^verbatim>\<open><c9>\<close> is 201, the capital one, and 39 is the
  apostrophe.
\<close>

definition cafe_de_l_ete :: pystr where
  "cafe_de_l_ete = [67, 97, 102, 233, 32, 100, 101, 32, 108, 39, 201, 116, 233, 33]"

text \<open>The path of two points of the end-to-end scenario.\<close>

definition two_points :: "(rat \<times> rat) list" where
  "two_points = [(38.5, -120.2), (40.7, -120.95)]"

text \<open>The manifest a run has written last, if the last file it wrote is a manifest.\<close>

definition written_manifest :: "world \<Rightarrow> index option" where
  "written_manifest w =
     (case rev (files w) of
        [] \<Rightarrow> None
      | (path, Route_geojson gj) # earlier \<Rightarrow> None
      | (path, Index_json idx) # earlier \<Rightarrow> Some idx)"

text \<open>
  A record of the route listing that has an identifier, a name, a type and a summary
  polyline, and no other key.
\<close>

definition listed_route :: "int \<Rightarrow> pystr field \<Rightarrow> pystr field \<Rightarrow> pystr \<Rightarrow> raw_route" where
  "listed_route route_id name route_type summary =
     \<lparr>r_id = route_id, r_name = name, r_distance = Missing, r_elevation_gain = Missing,
      r_type = route_type, r_updated_at = Missing, r_created_at = Missing,
      r_map = Val \<lparr>polyline = Missing, summary_polyline = Val summary\<rparr>\<rparr>"

text \<open>
  A remote service that lists the given routes for athlete 7 and answers every detail
  request with a record without a map, on a machine where every file can be written.
\<close>

definition service :: "raw_route list \<Rightarrow> extern" where
  "service rs =
     \<lparr>ucd = id, listing = Inr (7, rs),
      get_route_detail = (\<lambda>route_id. Inr \<lparr>d_map = Missing\<rparr>),
      utcnow = str ''2024-01-01T00:00:00+00:00'', writable = (\<lambda>path. True)\<rparr>"

text \<open>The configuration of an empty environment, and the one where \<^verbatim>\<open>ROUTES_DIR\<close> is \<^verbatim>\<open>out\<close>.\<close>

definition default_config :: config where
  "default_config = config_of_environ (\<lambda>key. None)"

definition out_config :: config where
  "out_config =
     config_of_environ (\<lambda>key. if key = str ''ROUTES_DIR'' then Some (str ''out'') else None)"

definition empty_index :: index where
  "empty_index = \<lparr>generated_at = str ''2024-01-01T00:00:00+00:00'', athlete_id = 7, count = 0, routes = []\<rparr>"

definition empty_world :: world where
  "empty_world = \<lparr>files = [], stdout = []\<rparr>"

text \<open>The three routes of the manifest sort scenario; \<^verbatim>\<open>??\<close> is the polyline of the point (0, 0).\<close>

definition three_routes :: "raw_route list" where
  "three_routes =
     [listed_route 1 (Val (str ''B'')) (Val (str ''run'')) (str ''??''),
      listed_route 2 (Val (str ''A'')) (Val (str ''ride'')) (str ''??''),
      listed_route 3 (Val (str ''Z'')) (Val (str ''ride'')) (str ''??'')]"

text \<open>
  A route whose polyline ends after the latitude of its first point, followed by a route
  with a well-formed polyline.
\<close>

definition truncated_then_good :: "raw_route list" where
  "truncated_then_good =
     [listed_route 1 (Val (str ''Bad'')) (Val (str ''run'')) (str ''_p~iF''),
      listed_route 2 (Val (str ''Good'')) (Val (str ''run'')) (str ''??'')]"

text \<open>A single route named \<^verbatim>\<open>A\<close>, and a route without a name.\<close>

definition route_a :: raw_route where
  "route_a = listed_route 1 (Val (str ''A'')) (Val (str ''ride'')) (str ''??'')"

definition nameless_route :: raw_route where
  "nameless_route = listed_route 42 Missing (Val (str ''run'')) (str ''??'')"

definition bare_route :: raw_route where
  "bare_route = listed_route 5 (Val (str ''Loop'')) Null (str ''??'')"

text \<open>A world in which no manifest has been written.\<close>

definition only_geojson :: "world \<Rightarrow> bool" where
  "only_geojson w =
     list_all (\<lambda>(path, doc). case doc of Route_geojson gj \<Rightarrow> True | Index_json idx \<Rightarrow> False)
       (files w)"

section \<open>The decoder on concrete strings\<close>

text \<open>
  Claim C8. \<^verbatim>\<open>decode_polyline\<close> applied to the empty string returns the empty path, and
  raises nothing.
\<close>

theorem decode_polyline_empty: "decode_polyline (str '''') = Inr []"
  by (simp add: decode_polyline_def decode_loop.simps str_def)

text \<open>
  Claim C1, as stated, fails: the polyline of the scenario does not decode to the path of
  two points \<^verbatim>\<open>[(38.5, -120.2), (40.7, -120.95)]\<close>.
\<close>

theorem decode_canonical_counterexample:
  "decode_polyline canonical_polyline \<noteq> Inr [(38.5, -120.2), (40.7, -120.95)]"
  by code_simp

text \<open>
  Claim C1, amended. The polyline of the scenario decodes to a path of three points, whose
  bounding box is \<^verbatim>\<open>[-126.453, 38.5, -120.2, 43.252]\<close>. The path of two points of the claim
  is what its first 18 characters decode to; the bounding box of that path is
  \<^verbatim>\<open>[-120.95, 38.5, -120.2, 40.7]\<close> and the center of that box is \<^verbatim>\<open>(-120.575, 39.6)\<close>.
\<close>

theorem decode_canonical:
  "decode_polyline canonical_polyline
     = Inr [(38.5, -120.2), (40.7, -120.95), (43.252, -126.453)]
   \<and> bbox_from_coords [(38.5, -120.2), (40.7, -120.95), (43.252, -126.453 :: rat)]
     = Inr [-126.453, 38.5, -120.2, 43.252]
   \<and> decode_polyline (take 18 canonical_polyline) = Inr [(38.5, -120.2), (40.7, -120.95)]
   \<and> bbox_from_coords [(38.5, -120.2), (40.7, -120.95 :: rat)]
     = Inr [-120.95, 38.5, -120.2, 40.7]
   \<and> center_from_bbox [-120.95, 38.5, -120.2, 40.7] = Inr [-120.575, 39.6]"
  by code_simp

section \<open>Slugs of concrete names\<close>

lemmas slug_defs =
  slugify_def normalize_NFKD_def decompose_def latin1_decomposition_def ascii_ignore_def
  remove_other_def is_word_def is_space_def hyphen_def strip_def lower_def str_def

text \<open>
  Claim C4, as stated, fails: the slug of the name above is not \<^verbatim>\<open>cafe-de-l-ete\<close>. The
  apostrophe is removed, not turned into a hyphen.
\<close>

theorem slugify_cafe_counterexample:
  "slugify id cafe_de_l_ete \<noteq> str ''cafe-de-l-ete''"
  by (simp add: slug_defs cafe_de_l_ete_def)

text \<open>
  Claim C4, amended. The slug of the name above is \<^verbatim>\<open>cafe-de-lete\<close>; the slug of the
  empty string is \<^verbatim>\<open>route\<close>; and no slug is longer than 60 characters.
\<close>

theorem slugify_examples:
  "slugify u cafe_de_l_ete = str ''cafe-de-lete''
   \<and> slugify u (str '''') = str ''route''
   \<and> length (slugify u v) \<le> 60"
proof (intro conjI)
  show "slugify u cafe_de_l_ete = str ''cafe-de-lete''"
    by (simp add: slug_defs cafe_de_l_ete_def)
  show "slugify u (str '''') = str ''route''"
    by (simp add: slug_defs)
  show "length (slugify u v) \<le> 60"
    by (simp add: slugify_def Let_def str_def)
qed

section \<open>The bounding box of a path\<close>

lemma fold_min_in:
  "fold (\<lambda>item best. if item < best then item else best) xs (x::'a::linorder) \<in> set (x # xs)"
  by (induction xs arbitrary: x) auto

lemma fold_min_le:
  "\<forall>y \<in> set (x # xs). fold (\<lambda>item best. if item < best then item else best) xs (x::'a::linorder) \<le> y"
proof (induction xs arbitrary: x)
  case Nil
  show ?case by simp
next
  case (Cons a xs)
  let ?b = "if a < x then a else x"
  from Cons.IH [of ?b]
  have all: "\<forall>y \<in> set (?b # xs). fold (\<lambda>item best. if item < best then item else best) xs ?b \<le> y" .
  then have "fold (\<lambda>item best. if item < best then item else best) xs ?b \<le> ?b" by simp
  moreover have "?b \<le> x" "?b \<le> a" by auto
  ultimately have "fold (\<lambda>item best. if item < best then item else best) xs ?b \<le> x"
    "fold (\<lambda>item best. if item < best then item else best) xs ?b \<le> a"
    by (blast intro: order_trans)+
  with all show ?case by simp
qed

lemma fold_max_in:
  "fold (\<lambda>item best. if best < item then item else best) xs (x::'a::linorder) \<in> set (x # xs)"
  by (induction xs arbitrary: x) auto

lemma fold_max_ge:
  "\<forall>y \<in> set (x # xs). y \<le> fold (\<lambda>item best. if best < item then item else best) xs (x::'a::linorder)"
proof (induction xs arbitrary: x)
  case Nil
  show ?case by simp
next
  case (Cons a xs)
  let ?b = "if x < a then a else x"
  from Cons.IH [of ?b]
  have all: "\<forall>y \<in> set (?b # xs). y \<le> fold (\<lambda>item best. if best < item then item else best) xs ?b" .
  then have "?b \<le> fold (\<lambda>item best. if best < item then item else best) xs ?b" by simp
  moreover have "x \<le> ?b" "a \<le> ?b" by auto
  ultimately have "x \<le> fold (\<lambda>item best. if best < item then item else best) xs ?b"
    "a \<le> fold (\<lambda>item best. if best < item then item else best) xs ?b"
    by (blast intro: order_trans)+
  with all show ?case by simp
qed

lemma py_min_spec:
  "xs \<noteq> [] \<Longrightarrow> \<exists>m. py_min xs = Inr m \<and> m \<in> set xs \<and> (\<forall>y\<in>set xs. m \<le> y)"
  using fold_min_in fold_min_le by (cases xs) (simp_all, blast)

lemma py_max_spec:
  "xs \<noteq> [] \<Longrightarrow> \<exists>m. py_max xs = Inr m \<and> m \<in> set xs \<and> (\<forall>y\<in>set xs. y \<le> m)"
  using fold_max_in fold_max_ge by (cases xs) (simp_all, blast)

text \<open>
  Claim C5. For every non-empty path, \<^verbatim>\<open>bbox_from_coords\<close> returns
  \<^verbatim>\<open>[minLon, minLat, maxLon, maxLat]\<close> where every point of the path has its longitude
  between \<^verbatim>\<open>minLon\<close> and \<^verbatim>\<open>maxLon\<close> and its latitude between \<^verbatim>\<open>minLat\<close> and \<^verbatim>\<open>maxLat\<close>,
  and each of the four bounds is the coordinate of some point of the path.
\<close>

theorem bbox_from_coords_correct:
  fixes coords :: "('a::linorder \<times> 'a) list"
  assumes "coords \<noteq> []"
  shows "\<exists>minx miny maxx maxy.
           bbox_from_coords coords = Inr [minx, miny, maxx, maxy]
           \<and> (\<forall>(lat, lon) \<in> set coords. minx \<le> lon \<and> lon \<le> maxx \<and> miny \<le> lat \<and> lat \<le> maxy)
           \<and> (\<exists>p \<in> set coords. snd p = minx) \<and> (\<exists>p \<in> set coords. snd p = maxx)
           \<and> (\<exists>p \<in> set coords. fst p = miny) \<and> (\<exists>p \<in> set coords. fst p = maxy)"
proof -
  from assms have ne: "map fst coords \<noteq> []" "map snd coords \<noteq> []" by simp_all
  from py_min_spec [OF ne(2)] obtain minx where
    minx: "py_min (map snd coords) = Inr minx" "minx \<in> set (map snd coords)"
      "\<forall>y\<in>set (map snd coords). minx \<le> y" by blast
  from py_min_spec [OF ne(1)] obtain miny where
    miny: "py_min (map fst coords) = Inr miny" "miny \<in> set (map fst coords)"
      "\<forall>y\<in>set (map fst coords). miny \<le> y" by blast
  from py_max_spec [OF ne(2)] obtain maxx where
    maxx: "py_max (map snd coords) = Inr maxx" "maxx \<in> set (map snd coords)"
      "\<forall>y\<in>set (map snd coords). y \<le> maxx" by blast
  from py_max_spec [OF ne(1)] obtain maxy where
    maxy: "py_max (map fst coords) = Inr maxy" "maxy \<in> set (map fst coords)"
      "\<forall>y\<in>set (map fst coords). y \<le> maxy" by blast
  have box: "bbox_from_coords coords = Inr [minx, miny, maxx, maxy]"
    by (simp add: bbox_from_coords_def minx(1) miny(1) maxx(1) maxy(1))
  have bounds: "\<forall>(lat, lon) \<in> set coords. minx \<le> lon \<and> lon \<le> maxx \<and> miny \<le> lat \<and> lat \<le> maxy"
    using minx(3) miny(3) maxx(3) maxy(3) by force
  have attained: "(\<exists>p \<in> set coords. snd p = minx)" "(\<exists>p \<in> set coords. snd p = maxx)"
    "(\<exists>p \<in> set coords. fst p = miny)" "(\<exists>p \<in> set coords. fst p = maxy)"
    using minx(2) miny(2) maxx(2) maxy(2) by auto
  from box bounds attained show ?thesis by blast
qed

text \<open>
  Witness of claim C5: the theorem at the path of two points of the scenario, which is
  not empty.
\<close>

theorem bbox_from_coords_correct_witness:
  "two_points \<noteq> []
   \<and> (\<exists>minx miny maxx maxy.
           bbox_from_coords two_points = Inr [minx, miny, maxx, maxy]
           \<and> (\<forall>(lat, lon) \<in> set two_points.
                 minx \<le> lon \<and> lon \<le> maxx \<and> miny \<le> lat \<and> lat \<le> maxy)
           \<and> (\<exists>p \<in> set two_points. snd p = minx) \<and> (\<exists>p \<in> set two_points. snd p = maxx)
           \<and> (\<exists>p \<in> set two_points. fst p = miny) \<and> (\<exists>p \<in> set two_points. fst p = maxy))"
proof -
  have ne: "two_points \<noteq> []" by (simp add: two_points_def)
  from ne bbox_from_coords_correct [OF ne] show ?thesis by (rule conjI)
qed

section \<open>One iteration of the loop\<close>

lemma resolve_polyline_files: "files (snd (resolve_polyline x r w)) = files w"
  by (simp add: resolve_polyline_def print_def Let_def split: sum.split)

text \<open>
  An iteration that ends normally and has appended an entry to the index has decoded a
  non-empty path and has written one geometry file; the entry and the file are as follows.
\<close>

lemma process_route_emitted:
  assumes run: "process_route x cfg r (idx, w) = (None, idx', w')"
    and new: "routes idx' \<noteq> routes idx"
  shows "\<exists>coords bb center dist.
      decode_polyline (the (fst (resolve_polyline x r w))) = Inr coords \<and> coords \<noteq> []
    \<and> bbox_from_coords coords = Inr bb \<and> center_from_bbox bb = Inr center
    \<and> py_float (get_default (r_distance r) 0) = Inr dist
    \<and> idx' = idx\<lparr>routes := routes idx @
         [\<lparr>e_id = r_id r, e_name = route_name r, e_slug = slugify (ucd x) (route_name r),
           e_type = get (r_type r), e_distance_m = dist,
           e_distance_km = km (get_default (r_distance r) 0),
           e_elev_gain_m = or_zero (get_default (r_elevation_gain r) 0),
           e_file = str ''routes/'' @ route_filename (r_id r) (slugify (ucd x) (route_name r)),
           e_bbox = bb, e_center = center,
           e_updated_at = py_or (get (r_updated_at r)) (get (r_created_at r))\<rparr>]\<rparr>
    \<and> files w' = files w @
         [(path_join (ROUTES_DIR cfg) (route_filename (r_id r) (slugify (ucd x) (route_name r))),
           Route_geojson
             \<lparr>fc_features =
                [\<lparr>f_properties =
                   Some \<lparr>p_id = r_id r, p_name = route_name r,
                          p_slug = slugify (ucd x) (route_name r),
                          p_type = get (r_type r), p_distance_m = dist,
                          p_distance_km = km (get_default (r_distance r) 0),
                          p_elev_gain_m = or_zero (get_default (r_elevation_gain r) 0),
                          p_updated_at = py_or (get (r_updated_at r)) (get (r_created_at r))\<rparr>,
                  f_coordinates = map (\<lambda>(lat, lon). [lon, lat]) coords\<rparr>],
              fc_bbox = bb\<rparr>)]"
proof -
  obtain mp w1 where res: "resolve_polyline x r w = (mp, w1)"
    by (cases "resolve_polyline x r w")
  then have fw: "files w1 = files w"
    using resolve_polyline_files [of x r w] by simp
  show ?thesis
    using run new fw
    by (auto simp: process_route_def res Let_def write_file_def print_def
        polyline_to_geojson_feature_def
        split: if_splits sum.splits prod.splits option.splits)
qed

text \<open>The iteration on a listed route with the polyline \<^verbatim>\<open>??\<close>, at the service above.\<close>

lemma decode_origin: "decode_polyline (str ''??'') = Inr [(0, 0)]"
  by code_simp

lemma str_Nil_iff: "str s = [] \<longleftrightarrow> s = []"
  by (simp add: str_def)

lemma service_fields:
  "ucd (service rs) = id" "listing (service rs) = Inr (7, rs)"
  "get_route_detail (service rs) i = Inr \<lparr>d_map = Missing\<rparr>"
  "utcnow (service rs) = str ''2024-01-01T00:00:00+00:00''" "writable (service rs) path"
  by (simp_all add: service_def)

lemma get_field_simps:
  "get Missing = None" "get Null = None" "get (Val v) = Some v"
  "get_default Missing d = Some d" "get_default Null d = None" "get_default (Val v) d = Some v"
  by (simp_all add: get_def get_default_def)

lemma process_listed_route:
  "process_route (service rs) cfg (listed_route i n t (str ''??'')) (idx, w) =
    (None,
     idx\<lparr>routes := routes idx @
       [\<lparr>e_id = i, e_name = or_str (get n) (str ''Route '' @ str_of_int i),
         e_slug = slugify id (or_str (get n) (str ''Route '' @ str_of_int i)),
         e_type = get t, e_distance_m = 0, e_distance_km = 0, e_elev_gain_m = 0,
         e_file = str ''routes/'' @
           route_filename i (slugify id (or_str (get n) (str ''Route '' @ str_of_int i))),
         e_bbox = [0, 0, 0, 0], e_center = [0, 0], e_updated_at = None\<rparr>]\<rparr>,
     w\<lparr>files := files w @
       [(path_join (ROUTES_DIR cfg)
           (route_filename i (slugify id (or_str (get n) (str ''Route '' @ str_of_int i)))),
         Route_geojson
           \<lparr>fc_features =
              [\<lparr>f_properties =
                  Some \<lparr>p_id = i, p_name = or_str (get n) (str ''Route '' @ str_of_int i),
                         p_slug = slugify id (or_str (get n) (str ''Route '' @ str_of_int i)),
                         p_type = get t, p_distance_m = 0, p_distance_km = 0,
                         p_elev_gain_m = 0, p_updated_at = None\<rparr>,
                f_coordinates = [[0, 0]]\<rparr>],
            fc_bbox = [0, 0, 0, 0]\<rparr>)]\<rparr>)"
proof -
  show ?thesis
    by (simp add: process_route_def resolve_polyline_def map_polyline_def or_empty_def py_or_def
        truthy_def get_field_simps route_name_def write_file_def py_float_def km_def or_zero_def
        round3_def round_half_even_def bbox_from_coords_def polyline_to_geojson_feature_def
        service_fields listed_route_def decode_origin str_Nil_iff Let_def)
qed

section \<open>Names, distances and elevation gains of emitted routes\<close>

lemma route_digits: "str_of_int 42 = str ''42''" "str_of_int 1 = str ''1''" "str_of_int 5 = str ''5''"
  by (simp_all add: str_of_int_def digits.simps str_def)

text \<open>
  Claim C9. For every route record whose name is missing, null or empty and for which the
  iteration emits an entry, the name in the properties of the written feature and in the
  manifest entry is \<^verbatim>\<open>Route <id>\<close>, with the route's identifier in decimal, and the slug
  in both is the slug of that name.
\<close>

theorem missing_name_is_route_id:
  assumes name: "r_name r = Missing \<or> r_name r = Null \<or> r_name r = Val []"
    and run: "process_route x cfg r (idx, w) = (None, idx', w')"
    and new: "routes idx' \<noteq> routes idx"
  shows "\<exists>entry path props line bb.
      routes idx' = routes idx @ [entry]
    \<and> files w' = files w @
          [(path, Route_geojson
              \<lparr>fc_features = [\<lparr>f_properties = Some props, f_coordinates = line\<rparr>],
               fc_bbox = bb\<rparr>)]
    \<and> p_name props = str ''Route '' @ str_of_int (r_id r)
    \<and> p_slug props = slugify (ucd x) (str ''Route '' @ str_of_int (r_id r))
    \<and> e_name entry = str ''Route '' @ str_of_int (r_id r)
    \<and> e_slug entry = slugify (ucd x) (str ''Route '' @ str_of_int (r_id r))"
proof -
  from name have nm: "route_name r = str ''Route '' @ str_of_int (r_id r)"
    by (auto simp: route_name_def or_str_def get_def)
  from process_route_emitted [OF run new] obtain coords bb center dist where
    "idx' = idx\<lparr>routes := routes idx @
         [\<lparr>e_id = r_id r, e_name = route_name r, e_slug = slugify (ucd x) (route_name r),
           e_type = get (r_type r), e_distance_m = dist,
           e_distance_km = km (get_default (r_distance r) 0),
           e_elev_gain_m = or_zero (get_default (r_elevation_gain r) 0),
           e_file = str ''routes/'' @ route_filename (r_id r) (slugify (ucd x) (route_name r)),
           e_bbox = bb, e_center = center,
           e_updated_at = py_or (get (r_updated_at r)) (get (r_created_at r))\<rparr>]\<rparr>"
    and "files w' = files w @
         [(path_join (ROUTES_DIR cfg) (route_filename (r_id r) (slugify (ucd x) (route_name r))),
           Route_geojson
             \<lparr>fc_features =
                [\<lparr>f_properties =
                   Some \<lparr>p_id = r_id r, p_name = route_name r,
                          p_slug = slugify (ucd x) (route_name r),
                          p_type = get (r_type r), p_distance_m = dist,
                          p_distance_km = km (get_default (r_distance r) 0),
                          p_elev_gain_m = or_zero (get_default (r_elevation_gain r) 0),
                          p_updated_at = py_or (get (r_updated_at r)) (get (r_created_at r))\<rparr>,
                  f_coordinates = map (\<lambda>(lat, lon). [lon, lat]) coords\<rparr>],
              fc_bbox = bb\<rparr>)]"
    by blast
  then show ?thesis
    by (simp add: nm)
qed

text \<open>
  Witness of claim C9: route 42 of the listing has no name; its iteration emits the entry
  and the feature named \<^verbatim>\<open>Route 42\<close>, with the slug \<^verbatim>\<open>route-42\<close>.
\<close>

theorem missing_name_is_route_id_witness:
  "r_name nameless_route = Missing
   \<and> (\<exists>idx' w' entry path props line bb.
        process_route (service []) default_config nameless_route (empty_index, empty_world)
          = (None, idx', w')
      \<and> routes idx' = [entry]
      \<and> files w' = [(path, Route_geojson
                        \<lparr>fc_features = [\<lparr>f_properties = Some props, f_coordinates = line\<rparr>],
                         fc_bbox = bb\<rparr>)]
      \<and> p_name props = str ''Route 42'' \<and> p_slug props = str ''route-42''
      \<and> e_name entry = str ''Route 42'' \<and> e_slug entry = str ''route-42'')"
proof -
  obtain idx' w' where
    run: "process_route (service []) default_config nameless_route (empty_index, empty_world)
            = (None, idx', w')"
    and new: "routes idx' \<noteq> routes empty_index"
    by (simp add: nameless_route_def process_listed_route empty_index_def)
  have name: "r_name nameless_route = Missing"
    by (simp add: nameless_route_def listed_route_def)
  then have name': "r_name nameless_route = Missing \<or> r_name nameless_route = Null
      \<or> r_name nameless_route = Val []"
    by simp
  have rid: "r_id nameless_route = 42"
    by (simp add: nameless_route_def listed_route_def)
  have slug: "slugify id (str ''Route 42'') = str ''route-42''"
    by (simp add: slug_defs)
  have lit: "str ''Route '' @ str ''42'' = str ''Route 42''"
    by (simp add: str_def)
  have emp: "routes empty_index = []" "files empty_world = []"
    by (simp_all add: empty_index_def empty_world_def)
  from missing_name_is_route_id [OF name' run new] name run show ?thesis
    by (simp add: rid route_digits lit slug service_fields emp)
qed

lemma km_zero: "km (Some 0) = 0"
  by (simp add: km_def or_zero_def round3_def round_half_even_def)

text \<open>
  Claim C10. For every route record for which the iteration emits an entry: when the key
  \<^verbatim>\<open>elevation_gain\<close> is missing or null, \<^verbatim>\<open>elev_gain_m\<close> is the number 0 in the feature
  properties and in the manifest entry; when the key \<^verbatim>\<open>distance\<close> is missing,
  \<^verbatim>\<open>distance_m\<close> and \<^verbatim>\<open>distance_km\<close> are 0 in both. The fields are numbers by their type:
  none of them can be null.
\<close>

theorem missing_numbers_are_zero:
  assumes run: "process_route x cfg r (idx, w) = (None, idx', w')"
    and new: "routes idx' \<noteq> routes idx"
  shows "\<exists>entry path props line bb.
      routes idx' = routes idx @ [entry]
    \<and> files w' = files w @
          [(path, Route_geojson
              \<lparr>fc_features = [\<lparr>f_properties = Some props, f_coordinates = line\<rparr>],
               fc_bbox = bb\<rparr>)]
    \<and> (r_elevation_gain r = Missing \<or> r_elevation_gain r = Null
         \<longrightarrow> p_elev_gain_m props = 0 \<and> e_elev_gain_m entry = 0)
    \<and> (r_distance r = Missing
         \<longrightarrow> p_distance_m props = 0 \<and> p_distance_km props = 0
           \<and> e_distance_m entry = 0 \<and> e_distance_km entry = 0)"
proof -
  have elev: "r_elevation_gain r = Missing \<or> r_elevation_gain r = Null
      \<longrightarrow> or_zero (get_default (r_elevation_gain r) 0) = 0"
    by (auto simp: or_zero_def get_default_def)
  have dist: "r_distance r = Missing \<longrightarrow> get_default (r_distance r) 0 = Some 0"
    by (simp add: get_default_def)
  from process_route_emitted [OF run new] obtain coords bb center dist where
    "py_float (get_default (r_distance r) 0) = Inr dist"
    and "idx' = idx\<lparr>routes := routes idx @
         [\<lparr>e_id = r_id r, e_name = route_name r, e_slug = slugify (ucd x) (route_name r),
           e_type = get (r_type r), e_distance_m = dist,
           e_distance_km = km (get_default (r_distance r) 0),
           e_elev_gain_m = or_zero (get_default (r_elevation_gain r) 0),
           e_file = str ''routes/'' @ route_filename (r_id r) (slugify (ucd x) (route_name r)),
           e_bbox = bb, e_center = center,
           e_updated_at = py_or (get (r_updated_at r)) (get (r_created_at r))\<rparr>]\<rparr>"
    and "files w' = files w @
         [(path_join (ROUTES_DIR cfg) (route_filename (r_id r) (slugify (ucd x) (route_name r))),
           Route_geojson
             \<lparr>fc_features =
                [\<lparr>f_properties =
                   Some \<lparr>p_id = r_id r, p_name = route_name r,
                          p_slug = slugify (ucd x) (route_name r),
                          p_type = get (r_type r), p_distance_m = dist,
                          p_distance_km = km (get_default (r_distance r) 0),
                          p_elev_gain_m = or_zero (get_default (r_elevation_gain r) 0),
                          p_updated_at = py_or (get (r_updated_at r)) (get (r_created_at r))\<rparr>,
                  f_coordinates = map (\<lambda>(lat, lon). [lon, lat]) coords\<rparr>],
              fc_bbox = bb\<rparr>)]"
    by blast
  moreover from this(1) dist have "r_distance r = Missing \<longrightarrow> dist = 0"
    by (auto simp: py_float_def)
  ultimately show ?thesis
    using elev dist by (simp add: km_zero)
qed

text \<open>
  Witness of claim C10: route 5 of the listing has neither a distance nor an elevation
  gain; its iteration emits an entry and a feature where the three numbers are 0.
\<close>

theorem missing_numbers_are_zero_witness:
  "r_elevation_gain bare_route = Missing \<and> r_distance bare_route = Missing
   \<and> (\<exists>idx' w' entry path props line bb.
        process_route (service []) default_config bare_route (empty_index, empty_world)
          = (None, idx', w')
      \<and> routes idx' = [entry]
      \<and> files w' = [(path, Route_geojson
                        \<lparr>fc_features = [\<lparr>f_properties = Some props, f_coordinates = line\<rparr>],
                         fc_bbox = bb\<rparr>)]
      \<and> p_elev_gain_m props = 0 \<and> e_elev_gain_m entry = 0
      \<and> p_distance_m props = 0 \<and> p_distance_km props = 0
      \<and> e_distance_m entry = 0 \<and> e_distance_km entry = 0)"
proof -
  obtain idx' w' where
    run: "process_route (service []) default_config bare_route (empty_index, empty_world)
            = (None, idx', w')"
    and new: "routes idx' \<noteq> routes empty_index"
    by (simp add: bare_route_def process_listed_route empty_index_def)
  have missing: "r_elevation_gain bare_route = Missing" "r_distance bare_route = Missing"
    by (simp_all add: bare_route_def listed_route_def)
  have emp: "routes empty_index = []" "files empty_world = []"
    by (simp_all add: empty_index_def empty_world_def)
  from missing_numbers_are_zero [OF run new] missing run show ?thesis
    by (simp add: emp)
qed

section \<open>The file reference of a manifest entry\<close>

text \<open>
  For every iteration that emits an entry, the geometry file is written at
  \<^verbatim>\<open>os.path.join(ROUTES_DIR, filename)\<close> and the entry refers to \<^verbatim>\<open>routes/filename\<close>, with the
  same file name \<^verbatim>\<open>strava_route_<id>_<slug>.geojson\<close> in both. The two paths are equal when
  the root is \<^verbatim>\<open>routes\<close>.
\<close>

lemma entry_file_and_written_path:
  assumes run: "process_route x cfg r (idx, w) = (None, idx', w')"
    and new: "routes idx' \<noteq> routes idx"
  shows "\<exists>entry doc filename.
      filename = route_filename (r_id r) (slugify (ucd x) (route_name r))
    \<and> routes idx' = routes idx @ [entry]
    \<and> files w' = files w @ [(path_join (ROUTES_DIR cfg) filename, doc)]
    \<and> e_file entry = str ''routes/'' @ filename"
  using process_route_emitted [OF run new] by auto

lemma route_filename_not_absolute: "route_filename i slug \<noteq> [] \<and> hd (route_filename i slug) \<noteq> slash"
  by (simp add: route_filename_def str_def slash_def)

lemma default_root_same_path:
  "path_join (str ''routes'') (route_filename i slug) = str ''routes/'' @ route_filename i slug"
  using route_filename_not_absolute [of i slug]
  by (simp add: path_join_def) (simp add: str_def slash_def)

lemma slug_a: "slugify id (str ''A'') = str ''a''"
  by (simp add: slug_defs)

lemma out_config_fields:
  "ROUTES_DIR out_config = str ''out''" "INDEX_PATH out_config = str ''out/index.json''"
  by (simp_all add: out_config_def config_of_environ_def path_join_def slash_def Let_def)
    (simp_all add: str_def)

lemma run_route_a:
  "main (service [route_a]) out_config =
    (None,
     \<lparr>files =
        [(str ''out/strava_route_1_a.geojson'',
          Route_geojson
            \<lparr>fc_features =
               [\<lparr>f_properties =
                   Some \<lparr>p_id = 1, p_name = str ''A'', p_slug = str ''a'',
                          p_type = Some (str ''ride''), p_distance_m = 0, p_distance_km = 0,
                          p_elev_gain_m = 0, p_updated_at = None\<rparr>,
                 f_coordinates = [[0, 0]]\<rparr>],
             fc_bbox = [0, 0, 0, 0]\<rparr>),
         (str ''out/index.json'',
          Index_json
            \<lparr>generated_at = str ''2024-01-01T00:00:00+00:00'', athlete_id = 7, count = 1,
             routes =
               [\<lparr>e_id = 1, e_name = str ''A'', e_slug = str ''a'', e_type = Some (str ''ride''),
                 e_distance_m = 0, e_distance_km = 0, e_elev_gain_m = 0,
                 e_file = str ''routes/strava_route_1_a.geojson'',
                 e_bbox = [0, 0, 0, 0], e_center = [0, 0], e_updated_at = None\<rparr>]\<rparr>)],
      stdout = [Found_routes 1 7, Wrote_routes 1 (str ''out'') (str ''out/index.json'')]\<rparr>)"
proof -
  have name: "or_str (Some (str ''A'')) (str ''Route '' @ str_of_int 1) = str ''A''"
    by (simp add: or_str_def str_def)
  have paths: "path_join (str ''out'') (route_filename 1 (str ''a'')) = str ''out/strava_route_1_a.geojson''"
    "str ''routes/'' @ route_filename 1 (str ''a'') = str ''routes/strava_route_1_a.geojson''"
    by (simp_all add: path_join_def route_filename_def route_digits slash_def) (simp_all add: str_def)
  show ?thesis
    by (simp add: main_def service_fields route_a_def process_listed_route get_field_simps name
        slug_a out_config_fields paths write_file_def print_def Let_def)
qed

text \<open>
  Claim C7 at a root other than the default: with \<^verbatim>\<open>ROUTES_DIR\<close> set to \<^verbatim>\<open>out\<close>, the run
  on route 1, named \<^verbatim>\<open>A\<close>, writes \<^verbatim>\<open>out/strava_route_1_a.geojson\<close> and the manifest
  \<^verbatim>\<open>out/index.json\<close>, and the entry of the manifest refers to
  \<^verbatim>\<open>routes/strava_route_1_a.geojson\<close>, where the run has written nothing.
\<close>

theorem manifest_file_under_other_root:
  "fst (main (service [route_a]) out_config) = None
   \<and> map fst (files (snd (main (service [route_a]) out_config)))
       = [str ''out/strava_route_1_a.geojson'', str ''out/index.json'']
   \<and> (\<exists>idx. written_manifest (snd (main (service [route_a]) out_config)) = Some idx
        \<and> map e_file (routes idx) = [str ''routes/strava_route_1_a.geojson''])
   \<and> str ''routes/strava_route_1_a.geojson''
       \<notin> set (map fst (files (snd (main (service [route_a]) out_config))))"
proof -
  have differ: "str ''routes/strava_route_1_a.geojson'' \<noteq> str ''out/strava_route_1_a.geojson''"
    "str ''routes/strava_route_1_a.geojson'' \<noteq> str ''out/index.json''"
    by (simp_all add: str_def)
  show ?thesis
    by (simp add: run_route_a written_manifest_def differ)
qed

section \<open>A polyline that ends in the middle of a point\<close>

lemma run_routes_append:
  "run_routes x cfg (rs @ rs') st =
     (case run_routes x cfg rs st of
        (Some e, st') \<Rightarrow> (Some e, st')
      | (None, st') \<Rightarrow> run_routes x cfg rs' st')"
  by (induction rs arbitrary: st) (auto split: prod.splits option.splits)

text \<open>An exception of the decoder leaves the iteration as it is, right after the polyline was resolved.\<close>

lemma process_route_decode_error:
  assumes "resolve_polyline x r w = (Some p, w1)" and "p \<noteq> []" and "decode_polyline p = Inl e"
  shows "process_route x cfg r (idx, w) = (Some e, idx, w1)"
  using assms by (simp add: process_route_def truthy_def Let_def)

text \<open>The loop writes geometry files only.\<close>

lemma process_route_only_geojson:
  assumes "process_route x cfg r (idx, w) = (res, idx', w')" and "only_geojson w"
  shows "only_geojson w'"
proof -
  obtain mp w1 where res: "resolve_polyline x r w = (mp, w1)"
    by (cases "resolve_polyline x r w")
  then have "files w1 = files w"
    using resolve_polyline_files [of x r w] by simp
  with assms show ?thesis
    by (auto simp: process_route_def res Let_def write_file_def print_def only_geojson_def
        split: if_splits sum.splits prod.splits option.splits)
qed

lemma run_routes_only_geojson:
  "run_routes x cfg rs (idx, w) = (res, idx', w') \<Longrightarrow> only_geojson w \<Longrightarrow> only_geojson w'"
proof (induction rs arbitrary: idx w)
  case Nil
  then show ?case by simp
next
  case (Cons r rs)
  obtain res1 idx1 w1 where step: "process_route x cfg r (idx, w) = (res1, idx1, w1)"
    by (cases "process_route x cfg r (idx, w)")
  from process_route_only_geojson [OF step Cons.prems(2)] have ok: "only_geojson w1" .
  show ?case
  proof (cases res1)
    case None
    with Cons.prems(1) step have "run_routes x cfg rs (idx1, w1) = (res, idx', w')" by simp
    from Cons.IH [OF this ok] show ?thesis .
  next
    case (Some e)
    with Cons.prems(1) step ok show ?thesis by simp
  qed
qed

lemma only_geojson_no_manifest: "only_geojson w \<Longrightarrow> written_manifest w = None"
  by (cases "rev (files w)")
    (auto simp: only_geojson_def written_manifest_def list_all_iff split: document.splits
      dest: arg_cong [where f = set])

lemma decode_truncated: "decode_polyline (str ''_p~iF'') = Inl IndexError"
  by code_simp

text \<open>
  The decoder returns at least one point for a polyline that is not empty, or raises: the
  test \<^verbatim>\<open>if not coords\<close> after the call holds for no polyline that passes \<^verbatim>\<open>if not mp\<close>.
\<close>

lemma decode_loop_grows:
  "decode_loop s i lat lng acc = Inr coords \<Longrightarrow> length acc \<le> length coords"
proof (induction s i lat lng acc rule: decode_loop.induct)
  case (1 s i lat lng acc)
  show ?case
  proof (cases "i < length s")
    case False
    with "1.prems" show ?thesis by (simp add: decode_loop.simps [of s i])
  next
    case True
    from "1.prems" True obtain result index1 result2 index2 la lo where
      c1: "read_chunk s i 0 0 = Inr (result, index1)"
      and c2: "read_chunk s index1 0 0 = Inr (result2, index2)"
      and la: "div_1e5 (lat + signed_delta result) = Inr la"
      and lo: "div_1e5 (lng + signed_delta result2) = Inr lo"
      and rec: "decode_loop s index2 (lat + signed_delta result) (lng + signed_delta result2)
                  (acc @ [(la, lo)]) = Inr coords"
      by (subst (asm) decode_loop.simps)
        (auto simp: Let_def split: sum.splits prod.splits)
    from "1.IH" [OF True c1 refl refl refl c2 refl refl refl la lo rec]
    show ?thesis by simp
  qed
qed

lemma decode_polyline_nonempty:
  assumes "p \<noteq> []" and "decode_polyline p = Inr coords"
  shows "coords \<noteq> []"
proof -
  from assms(1) have inside: "0 < length p" by simp
  from assms(2) inside obtain la lo i lat lng where
    "decode_loop p i lat lng ([] @ [(la, lo)]) = Inr coords"
    unfolding decode_polyline_def
    by (subst (asm) decode_loop.simps)
      (auto simp: Let_def split: sum.splits prod.splits)
  from decode_loop_grows [OF this] show ?thesis by auto
qed

text \<open>
  Claim C2 at a truncated polyline: the first of the two routes has a polyline that ends
  after a latitude, the second a well-formed one. The claim has the first route skipped
  with a diagnostic and the run go on, as the loop does for a route without a polyline and
  for a failed detail request. Here the run ends with the \<open>IndexError\<close> of the decoder: it
  has printed no diagnostic for the route, it has not gone on to the second route, and it
  has written no file and no manifest.
\<close>

theorem truncated_polyline_ends_run:
  "main (service truncated_then_good) default_config
     = (Some IndexError, \<lparr>files = [], stdout = [Found_routes 2 7]\<rparr>)"
proof -
  have step: "process_route (service rs) default_config
      (listed_route 1 (Val (str ''Bad'')) (Val (str ''run'')) (str ''_p~iF'')) (idx, w)
      = (Some IndexError, idx, w)" for rs idx w
    by (rule process_route_decode_error [where p = "str ''_p~iF''"])
      (simp_all add: resolve_polyline_def service_fields listed_route_def map_polyline_def
        or_empty_def py_or_def truthy_def get_field_simps decode_truncated str_Nil_iff)
  show ?thesis
    by (simp add: main_def service_fields Let_def print_def truncated_then_good_def step)
qed

text \<open>
  The same for every run. Let the resolved polyline of a route of the listing be
  malformed: the cursor of \<^verbatim>\<open>decode_polyline\<close> reaches the end of the string in the middle
  of a point, which raises \<open>IndexError\<close>, an outcome other than the empty path. The call is
  outside the \<^verbatim>\<open>try\<close> block of the loop body, so that when the routes before it have been
  processed, the iteration of the route, the loop and \<^verbatim>\<open>main\<close> end with \<open>IndexError\<close>, in
  the world as it was when the polyline had been resolved: no diagnostic for the route is
  printed, the routes after it are not processed, and no manifest is written.
\<close>

lemma malformed_polyline_not_skipped:
  assumes listing: "listing x = Inr (athlete, earlier @ r # later)"
    and before: "run_routes x cfg earlier
        (\<lparr>generated_at = utcnow x, athlete_id = athlete, count = 0, routes = []\<rparr>,
         print (Found_routes (length (earlier @ r # later)) athlete) \<lparr>files = [], stdout = []\<rparr>)
       = (None, idx, w)"
    and resolved: "resolve_polyline x r w = (Some p, w1)"
    and nonempty: "p \<noteq> []"
    and malformed: "decode_polyline p = Inl IndexError"
  shows "decode_polyline p \<noteq> Inr []
    \<and> process_route x cfg r (idx, w) = (Some IndexError, idx, w1)
    \<and> run_routes x cfg (r # later) (idx, w) = (Some IndexError, idx, w1)
    \<and> main x cfg = (Some IndexError, w1)
    \<and> files w1 = files w
    \<and> written_manifest w1 = None"
proof -
  have step: "process_route x cfg r (idx, w) = (Some IndexError, idx, w1)"
    by (rule process_route_decode_error [OF resolved nonempty malformed])
  then have loop: "run_routes x cfg (r # later) (idx, w) = (Some IndexError, idx, w1)"
    by simp
  have whole: "main x cfg = (Some IndexError, w1)"
    using before
    by (simp add: main_def listing Let_def run_routes_append loop del: run_routes.simps)
  have "only_geojson (print (Found_routes (length (earlier @ r # later)) athlete) \<lparr>files = [], stdout = []\<rparr>)"
    by (simp add: only_geojson_def print_def)
  from run_routes_only_geojson [OF before this] have "only_geojson w" .
  moreover have same: "files w1 = files w"
    using resolve_polyline_files [of x r w] resolved by simp
  ultimately have "only_geojson w1"
    by (simp add: only_geojson_def)
  then have "written_manifest w1 = None"
    by (rule only_geojson_no_manifest)
  with malformed step loop whole same show ?thesis by simp
qed

text \<open>
  An instance: the listing of the two routes above, with no route before the one whose
  polyline is truncated.
\<close>

lemma malformed_polyline_not_skipped_instance:
  "listing (service truncated_then_good) = Inr (7, truncated_then_good)
   \<and> decode_polyline (str ''_p~iF'') = Inl IndexError
   \<and> decode_polyline (str ''_p~iF'') \<noteq> Inr []
   \<and> fst (main (service truncated_then_good) default_config) = Some IndexError
   \<and> written_manifest (snd (main (service truncated_then_good) default_config)) = None"
proof -
  let ?x = "service truncated_then_good"
  let ?r = "listed_route 1 (Val (str ''Bad'')) (Val (str ''run'')) (str ''_p~iF'')"
  let ?later = "[listed_route 2 (Val (str ''Good'')) (Val (str ''run'')) (str ''??'')]"
  let ?idx = "\<lparr>generated_at = utcnow ?x, athlete_id = 7, count = 0, routes = []\<rparr>"
  let ?w = "print (Found_routes (length ([] @ ?r # ?later)) 7) \<lparr>files = [], stdout = []\<rparr>"
  have listing: "listing ?x = Inr (7, [] @ ?r # ?later)"
    by (simp add: service_fields truncated_then_good_def)
  have before: "run_routes ?x default_config [] (?idx, ?w) = (None, ?idx, ?w)"
    by simp
  have resolved: "resolve_polyline ?x ?r ?w = (Some (str ''_p~iF''), ?w)"
    by (simp add: resolve_polyline_def service_fields listed_route_def map_polyline_def
        or_empty_def py_or_def truthy_def get_field_simps str_Nil_iff)
  have nonempty: "str ''_p~iF'' \<noteq> []"
    by (simp add: str_Nil_iff)
  from malformed_polyline_not_skipped [OF listing before resolved nonempty decode_truncated]
  show ?thesis
    by (simp add: service_fields decode_truncated)
qed

section \<open>The order of the manifest\<close>

text \<open>A run that ends normally has written the manifest last, with the routes of the index sorted by the key.\<close>

lemma main_writes_sorted_manifest:
  assumes "main x cfg = (None, w)"
  shows "\<exists>idx. written_manifest w = Some idx \<and> sorted (map manifest_key (routes idx))"
proof -
  from assms obtain athlete rs where l: "listing x = Inr (athlete, rs)"
    by (cases "listing x") (auto simp: main_def)
  let ?st = "(\<lparr>generated_at = utcnow x, athlete_id = athlete, count = 0, routes = []\<rparr>,
     print (Found_routes (length rs) athlete) \<lparr>files = [], stdout = []\<rparr>)"
  obtain res idx1 w1 where loop: "run_routes x cfg rs ?st = (res, idx1, w1)"
    by (cases "run_routes x cfg rs ?st")
  with assms l have res: "res = None"
    by (cases res) (simp_all add: main_def Let_def)
  let ?idx2 = "idx1\<lparr>count := length (routes idx1), routes := sort_key manifest_key (routes idx1)\<rparr>"
  from assms l loop res have "writable x (INDEX_PATH cfg)"
    by (auto simp: main_def Let_def write_file_def split: if_splits)
  with assms l loop res
  have "w = print (Wrote_routes (count ?idx2) (ROUTES_DIR cfg) (INDEX_PATH cfg))
      (w1\<lparr>files := files w1 @ [(INDEX_PATH cfg, Index_json ?idx2)]\<rparr>)"
    by (simp add: main_def Let_def write_file_def)
  then have "written_manifest w = Some ?idx2"
    by (simp add: written_manifest_def print_def)
  moreover have "sorted (map manifest_key (routes ?idx2))"
    by (simp add: sorted_sort_key)
  ultimately show ?thesis by blast
qed

lemma manifest_key_le:
  "manifest_key a \<le> manifest_key b \<longleftrightarrow>
     or_str (e_type a) [] < or_str (e_type b) []
     \<or> (or_str (e_type a) [] = or_str (e_type b) [] \<and> e_name a \<le> e_name b)"
  by (auto simp: manifest_key_def or_str_def less_eq_prod_def)

lemma three_routes_order:
  "\<exists>idx. written_manifest (snd (main (service three_routes) default_config)) = Some idx
     \<and> map (\<lambda>e. (e_type e, e_name e)) (routes idx)
         = [(Some (str ''ride''), str ''A''), (Some (str ''ride''), str ''Z''),
            (Some (str ''run''), str ''B'')]"
  apply (simp add: main_def service_fields Let_def)
  apply (simp add: three_routes_def process_listed_route write_file_def service_fields
      written_manifest_def print_def)
  apply (simp add: manifest_key_def or_str_def get_def str_def)
  done

text \<open>
  Claim C6. The manifest that a run writes has its routes sorted in ascending order of the
  pair of the type and the name, compared as pairs of strings in lexicographic order, where
  a type that is null counts as the empty string (a name is never null or empty in an
  entry). In the run on the three routes of types \<^verbatim>\<open>run\<close>, \<^verbatim>\<open>ride\<close>, \<^verbatim>\<open>ride\<close> and names
  \<^verbatim>\<open>B\<close>, \<^verbatim>\<open>A\<close>, \<^verbatim>\<open>Z\<close>, the manifest lists \<^verbatim>\<open>ride/A\<close>, \<^verbatim>\<open>ride/Z\<close>, \<^verbatim>\<open>run/B\<close>.
\<close>

theorem manifest_sorted_by_type_and_name:
  "(main x cfg = (None, w) \<longrightarrow>
      (\<exists>idx. written_manifest w = Some idx
         \<and> sorted (map manifest_key (routes idx))
         \<and> sorted_wrt
              (\<lambda>a b. or_str (e_type a) [] < or_str (e_type b) []
                 \<or> (or_str (e_type a) [] = or_str (e_type b) [] \<and> e_name a \<le> e_name b))
              (routes idx)))
   \<and> (\<exists>idx. written_manifest (snd (main (service three_routes) default_config)) = Some idx
         \<and> map (\<lambda>e. (e_type e, e_name e)) (routes idx)
             = [(Some (str ''ride''), str ''A''), (Some (str ''ride''), str ''Z''),
                (Some (str ''run''), str ''B'')])"
proof (intro conjI impI)
  assume "main x cfg = (None, w)"
  from main_writes_sorted_manifest [OF this] obtain idx where
    m: "written_manifest w = Some idx" and s: "sorted (map manifest_key (routes idx))"
    by blast
  from s have "sorted_wrt (\<lambda>a b. manifest_key a \<le> manifest_key b) (routes idx)"
    by (simp add: sorted_wrt_map)
  then have "sorted_wrt
      (\<lambda>a b. or_str (e_type a) [] < or_str (e_type b) []
         \<or> (or_str (e_type a) [] = or_str (e_type b) [] \<and> e_name a \<le> e_name b))
      (routes idx)"
    by (simp add: manifest_key_le)
  with m s show "\<exists>idx. written_manifest w = Some idx
         \<and> sorted (map manifest_key (routes idx))
         \<and> sorted_wrt
              (\<lambda>a b. or_str (e_type a) [] < or_str (e_type b) []
                 \<or> (or_str (e_type a) [] = or_str (e_type b) [] \<and> e_name a \<le> e_name b))
              (routes idx)"
    by blast
next
  show "\<exists>idx. written_manifest (snd (main (service three_routes) default_config)) = Some idx
         \<and> map (\<lambda>e. (e_type e, e_name e)) (routes idx)
             = [(Some (str ''ride''), str ''A''), (Some (str ''ride''), str ''Z''),
                (Some (str ''run''), str ''B'')]"
    by (rule three_routes_order)
qed

text \<open>
  Witness of claim C6: the run on the three routes ends normally, and its manifest is
  sorted by the key.
\<close>

theorem manifest_sorted_by_type_and_name_witness:
  "fst (main (service three_routes) default_config) = None
   \<and> (\<exists>idx. written_manifest (snd (main (service three_routes) default_config)) = Some idx
         \<and> length (routes idx) = 3
         \<and> sorted (map manifest_key (routes idx)))"
proof -
  obtain w where run: "main (service three_routes) default_config = (None, w)"
    apply (simp add: main_def service_fields Let_def)
    apply (simp add: three_routes_def process_listed_route write_file_def service_fields)
    done
  from three_routes_order run obtain idx where
    m: "written_manifest w = Some idx" and "length (map (\<lambda>e. (e_type e, e_name e)) (routes idx)) = 3"
    by auto
  then have len: "length (routes idx) = 3" by simp
  from manifest_sorted_by_type_and_name [of "service three_routes" default_config w] run m
  have "sorted (map manifest_key (routes idx))" by auto
  with run m len show ?thesis by simp
qed

section \<open>The round trip\<close>















text \<open>
  From \<open>2 ^ 53\<close> on, the conversion to a float merges scaled integers: the encoding of
  \<open>(2 ^ 53 + 3) / 10 ^ 5\<close> decodes to \<open>(2 ^ 53 + 4) / 10 ^ 5\<close>.
\<close>

lemma merged_beyond_53_bits:
  "decode_polyline (spec_encode_polyline [(90071992547.40995, 0)])
     = Inr [(90071992547.40996, 0)]"
  by code_simp










end
